theory Spec2Isabelle
  imports Complex_Main "HOL-Library.Multiset" "HOL-Library.Product_Lexorder"
begin

section \<open>Data model of \<open>app.py\<close>\<close>

text \<open>
  The calendar date that \<open>dateutil.parser.parse(s).date()\<close> yields and that the column
  \<open>last_donation\<close> stores.
\<close>

datatype date = Date (year: int) (month: nat) (day: nat)

text \<open>
  The SQLAlchemy model \<open>User\<close> (table \<open>users\<close>). A Python attribute may hold \<open>None\<close>
  whatever the column's \<open>nullable\<close> flag says (the flag is enforced at commit), so every
  attribute that the handlers assign from request data is an option. The primary key
  \<open>id\<close> is called \<open>uid\<close> here.
\<close>

record user =
  uid :: int
  name :: "string option"
  phone :: "string option"
  email :: string
  password :: string
  role :: string
  address :: "string option"
  lat :: "real option"
  lng :: "real option"
  blood_type :: "string option"
  last_donation :: "date option"

text \<open>The dictionary built by \<open>User.to_dict\<close>: every attribute but the password.\<close>

record user_dict =
  d_id :: int
  d_name :: "string option"
  d_phone :: "string option"
  d_email :: string
  d_role :: string
  d_address :: "string option"
  d_lat :: "real option"
  d_lng :: "real option"
  d_blood_type :: "string option"
  d_last_donation :: "date option"

definition to_dict :: "user \<Rightarrow> user_dict" where
  "to_dict u = \<lparr>d_id = uid u, d_name = name u, d_phone = phone u, d_email = email u,
     d_role = role u, d_address = address u, d_lat = lat u, d_lng = lng u,
     d_blood_type = blood_type u, d_last_donation = last_donation u\<rparr>"

text \<open>The model \<open>Hospital\<close> (table \<open>hospitals\<close>); its coordinates are not nullable.\<close>

record hospital =
  hid :: int
  hname :: string
  hlat :: real
  hlng :: real

text \<open>The database: the rows of the two tables, in the order a full scan returns them.\<close>

record db =
  users :: "user list"
  hospitals :: "hospital list"

text \<open>\<open>Hospital.query.get(i)\<close> and \<open>User.query.get(i)\<close>: the row with that primary key.\<close>

definition Hospital_get :: "db \<Rightarrow> int \<Rightarrow> hospital option" where
  "Hospital_get st i = find (\<lambda>h. hid h = i) (hospitals st)"

definition User_get :: "db \<Rightarrow> int \<Rightarrow> user option" where
  "User_get st i = find (\<lambda>u. uid u = i) (users st)"

subsection \<open>Responses\<close>

text \<open>
  The fixed texts of the JSON bodies (Vietnamese in the source), one constructor each:
  \<^item> \<open>MissingAlertFields\<close>: "Thieu hospital_id hoac blood_type" (status 400);
  \<^item> \<open>HospitalNotFound\<close>: "Khong tim thay benh vien" (404);
  \<^item> \<open>AiFilterNotFound\<close>: "Khong tim thay file ai_filter.py hoac file co loi." (500);
  \<^item> \<open>InternalFilterError\<close>: "Loi may chu noi bo khi loc nguoi dung" (500);
  \<^item> \<open>InvalidDateFormat f\<close>: "Dinh dang ngay f khong hop le" (400);
  \<^item> \<open>UpdateSucceeded\<close>: "Cap nhat thong tin thanh cong" (200);
  \<^item> \<open>InternalUpdateError\<close>: "Loi may chu noi bo khi cap nhat" (500).
\<close>

datatype message =
    MissingAlertFields
  | HospitalNotFound
  | AiFilterNotFound
  | InternalFilterError
  | InvalidDateFormat string
  | UpdateSucceeded
  | InternalUpdateError

text \<open>One element of \<open>top_50_users\<close> in the response of \<open>create_alert\<close>.\<close>

record match_entry =
  m_user :: user_dict
  distance_km :: real
  m_ai_score :: real

record alert_payload =
  out_hospital :: hospital
  out_blood_type_needed :: string
  out_radius_km :: real
  total_matched :: nat
  top_50_users :: "match_entry list"

datatype body =
    ErrorBody message
  | AlertBody alert_payload
  | ProfileBody message user_dict
  | NotFoundPage

text \<open>A response is the HTTP status and the body.\<close>

type_synonym response = "nat \<times> body"

section \<open>The route \<open>create_alert\<close>\<close>

text \<open>
  The request body of \<open>/create_alert\<close> is a JSON object \<open>{hospital_id: integer,
  blood_type: string, radius_km?: number}\<close>. A field is \<open>None\<close> when its key is not in the
  object, so \<open>k in data\<close> is \<open>field \<noteq> None\<close>.
\<close>

record alert_data =
  req_hospital_id :: "int option"
  req_blood_type :: "string option"
  req_radius_km :: "real option"

text \<open>
  An exception, with its message. The handler of \<open>create_alert\<close> tells \<open>ImportError\<close> from
  every other \<open>Exception\<close>.
\<close>

datatype exn = ImportError string | Exception string

text \<open>
  One element of the list that \<open>filter_nearby_users\<close> returns: the dictionary with the keys
  \<open>user\<close>, \<open>distance\<close> and \<open>ai_score\<close>.
\<close>

record filter_result =
  r_user :: user
  distance :: real
  ai_score :: real

type_synonym filter_fn = "hospital \<Rightarrow> user list \<Rightarrow> real \<Rightarrow> exn + filter_result list"

text \<open>
  What \<open>create_alert\<close> does outside itself, in the order it does it, each call with its
  arguments: the two queries, the import of the module \<open>ai_filter\<close> and the call of its
  function.
\<close>

datatype step =
    HospitalGet int
  | UserQuery string
  | ImportAiFilter
  | FilterNearbyUsers hospital "user list" real

record outcome =
  response :: response
  trace :: "step list"
  store :: db

text \<open>
  The query of lines 191 to 196: donors with both coordinates and the blood type asked for.
\<close>

definition suitable_users :: "db \<Rightarrow> string \<Rightarrow> user list" where
  "suitable_users st blood_type_needed =
     filter (\<lambda>u. role u = ''donor'' \<and> lat u \<noteq> None \<and> lng u \<noteq> None
                 \<and> blood_type u = Some blood_type_needed) (users st)"

text \<open>\<open>data.get('radius_km', 10)\<close>.\<close>

definition get_radius_km :: "alert_data \<Rightarrow> real" where
  "get_radius_km data = (case req_radius_km data of None \<Rightarrow> 10 | Some r \<Rightarrow> r)"

definition result_entry :: "filter_result \<Rightarrow> match_entry" where
  "result_entry r = \<lparr>m_user = to_dict (r_user r), distance_km = distance r,
     m_ai_score = ai_score r\<rparr>"

text \<open>The two \<open>except\<close> clauses of lines 211 to 215; the exception's message is only printed.\<close>

fun alert_except :: "exn \<Rightarrow> response" where
  "alert_except (ImportError m) = (500, ErrorBody AiFilterNotFound)"
| "alert_except (Exception m) = (500, ErrorBody InternalFilterError)"

text \<open>
  \<open>create_alert\<close>, lines 181 to 215. The first argument is what
  \<open>from ai_filter import filter_nearby_users\<close> gives: the function, or the exception the
  import raises. The handler writes nothing to the database, so the store is returned as
  it came.
\<close>

definition create_alert :: "exn + filter_fn \<Rightarrow> db \<Rightarrow> alert_data \<Rightarrow> outcome" where
  "create_alert ai_filter st data =
     (case (req_hospital_id data, req_blood_type data) of
        (Some hospital_id, Some blood_type_needed) \<Rightarrow>
          (case Hospital_get st hospital_id of
             None \<Rightarrow>
               \<lparr>response = (404, ErrorBody HospitalNotFound),
                trace = [HospitalGet hospital_id], store = st\<rparr>
           | Some hospital \<Rightarrow>
               (let radius_km = get_radius_km data;
                    suitable = suitable_users st blood_type_needed;
                    queries = [HospitalGet hospital_id, UserQuery blood_type_needed];
                    call = FilterNearbyUsers hospital suitable radius_km
                in case ai_filter of
                     Inl e \<Rightarrow>
                       \<lparr>response = alert_except e,
                        trace = queries @ [ImportAiFilter], store = st\<rparr>
                   | Inr filter_nearby_users \<Rightarrow>
                       (case filter_nearby_users hospital suitable radius_km of
                          Inl e \<Rightarrow>
                            \<lparr>response = alert_except e,
                             trace = queries @ [ImportAiFilter, call],
                             store = st\<rparr>
                        | Inr results \<Rightarrow>
                            \<lparr>response =
                               (200, AlertBody
                                  \<lparr>out_hospital = hospital,
                                   out_blood_type_needed = blood_type_needed,
                                   out_radius_km = radius_km,
                                   total_matched = length results,
                                   top_50_users = map result_entry (take 50 results)\<rparr>),
                             trace = queries @ [ImportAiFilter, call],
                             store = st\<rparr>)))
      | _ \<Rightarrow>
          \<lparr>response = (400, ErrorBody MissingAlertFields), trace = [], store = st\<rparr>)"

section \<open>The engine behind \<open>filter_nearby_users\<close>\<close>

text \<open>
  Modelled from the spec: the module \<open>ai_filter\<close>, which defines \<open>filter_nearby_users\<close>, is
  not among the sources. Section 4.1: the great-circle (haversine) distance between two
  points given in degrees, on a sphere of radius 6371 km.
\<close>

definition radians :: "real \<Rightarrow> real" where
  "radians x = x * pi / 180"

definition distanceKm :: "real \<times> real \<Rightarrow> real \<times> real \<Rightarrow> real" where
  "distanceKm a b =
     (let hav = (sin (radians (fst b - fst a) / 2))\<^sup>2
                + cos (radians (fst a)) * cos (radians (fst b))
                  * (sin (radians (snd b - snd a) / 2))\<^sup>2
      in 2 * 6371 * arcsin (sqrt hav))"

text \<open>
  Modelled from the spec: the location of a donor (section 3, \<open>location: GeoPoint | absent\<close>)
  is present when both coordinates are.
\<close>

definition location :: "user \<Rightarrow> (real \<times> real) option" where
  "location u = (case (lat u, lng u) of (Some a, Some b) \<Rightarrow> Some (a, b) | _ \<Rightarrow> None)"

text \<open>
  Modelled from the spec: the distance from the hospital to each candidate (section 4.2).
  A candidate without a location is the malformed record of section 4.5: the stage fails,
  which is \<open>None\<close>.
\<close>

fun distances :: "hospital \<Rightarrow> user list \<Rightarrow> (user \<times> real) list option" where
  "distances h [] = Some []"
| "distances h (u # us) =
     (case location u of
        None \<Rightarrow> None
      | Some p \<Rightarrow> map_option ((#) (u, distanceKm (hlat h, hlng h) p)) (distances h us))"

text \<open>
  Modelled from the spec: the distance filter of section 4.2 keeps the candidates with
  \<open>distance \<le> radius\<close>; a non-positive radius yields the empty result.
\<close>

definition distance_filter :: "real \<Rightarrow> (user \<times> real) list \<Rightarrow> (user \<times> real) list" where
  "distance_filter radius ds =
     (if radius \<le> 0 then [] else filter (\<lambda>(u, d). d \<le> radius) ds)"

text \<open>
  Modelled from the spec: the suitability scorer of section 4.3 is a pure function of the
  donor and its distance, whose formula the spec leaves to a policy; the policy is an
  argument.
\<close>

type_synonym scorer = "user \<Rightarrow> real \<Rightarrow> real"

definition score_all :: "scorer \<Rightarrow> (user \<times> real) list \<Rightarrow> filter_result list" where
  "score_all score ds = map (\<lambda>(u, d). \<lparr>r_user = u, distance = d, ai_score = score u d\<rparr>) ds"

text \<open>
  Modelled from the spec: the ranker of section 4.4 sorts by score descending, then distance
  ascending, then donor id ascending. (It truncates in \<open>create_alert\<close>.)
\<close>

definition rank_key :: "filter_result \<Rightarrow> real \<times> real \<times> int" where
  "rank_key r = (- ai_score r, distance r, uid (r_user r))"

definition rank :: "filter_result list \<Rightarrow> filter_result list" where
  "rank rs = sort_key rank_key rs"

text \<open>
  Modelled from the spec: \<open>filter_nearby_users\<close> of the missing module \<open>ai_filter\<close>, as the
  pipeline of section 2: distance filter, scorer, ranker.
\<close>

definition filter_nearby_users :: "scorer \<Rightarrow> filter_fn" where
  "filter_nearby_users score h donors radius =
     (case distances h donors of
        None \<Rightarrow> Inl (Exception ''donor without location'')
      | Some ds \<Rightarrow> Inr (rank (score_all score (distance_filter radius ds))))"

section \<open>The route \<open>update_user_profile\<close>\<close>

text \<open>
  The request body is a JSON object; this model has the keys whose values are strings or
  \<open>null\<close>. \<open>data k = None\<close> when the key is not in the object, \<open>Some None\<close> when its value is
  \<open>null\<close>.
\<close>

type_synonym profile_data = "string \<rightharpoonup> string option"

text \<open>
  The collaborators: \<open>geocode_address\<close> of the module \<open>geocoding_free\<close> returns the
  coordinates, or \<open>None\<close>, or raises; \<open>parse(s).date()\<close> of \<open>dateutil\<close> returns a date or
  raises \<open>ValueError\<close> or \<open>TypeError\<close> (\<open>None\<close> here); \<open>db.session.commit()\<close> writes the
  changed row or raises.
\<close>

type_synonym geocoder = "string \<Rightarrow> exn + (real \<times> real) option"

type_synonym date_parser = "string \<Rightarrow> date option"

type_synonym committer = "db \<Rightarrow> user \<Rightarrow> bool"

definition allowed_fields :: "string list" where
  "allowed_fields = [''name'', ''phone'', ''address'', ''blood_type'', ''last_donation'']"

text \<open>\<open>setattr(user, field, value)\<close> for the fields the loop passes to it.\<close>

definition setattr_user :: "user \<Rightarrow> string \<Rightarrow> string option \<Rightarrow> user" where
  "setattr_user u field v =
     (if field = ''name'' then u\<lparr>name := v\<rparr>
      else if field = ''phone'' then u\<lparr>phone := v\<rparr>
      else if field = ''address'' then u\<lparr>address := v\<rparr>
      else if field = ''blood_type'' then u\<lparr>blood_type := v\<rparr>
      else u)"

text \<open>
  The body of the loop for a field that is in \<open>data\<close>, lines 228 to 238. \<open>Inl\<close> is the early
  return of line 234.
\<close>

definition set_field :: "date_parser \<Rightarrow> user \<Rightarrow> string \<Rightarrow> string option \<Rightarrow> message + user" where
  "set_field parse u field v =
     (if field = ''last_donation'' then
        (case v of
           None \<Rightarrow> Inr (u\<lparr>last_donation := None\<rparr>)
         | Some date_str \<Rightarrow>
             if date_str = [] then Inr (u\<lparr>last_donation := None\<rparr>)
             else (case parse date_str of
                     None \<Rightarrow> Inl (InvalidDateFormat field)
                   | Some d \<Rightarrow> Inr (u\<lparr>last_donation := Some d\<rparr>)))
      else Inr (setattr_user u field v))"

text \<open>The loop of lines 226 to 240 over the remaining fields.\<close>

fun update_fields ::
  "date_parser \<Rightarrow> profile_data \<Rightarrow> string option \<Rightarrow> string list \<Rightarrow> user \<Rightarrow> bool
     \<Rightarrow> message + (user \<times> bool)" where
  "update_fields parse data old_address [] user geocoding_needed =
     Inr (user, geocoding_needed)"
| "update_fields parse data old_address (field # rest) user geocoding_needed =
     (case data field of
        None \<Rightarrow> update_fields parse data old_address rest user geocoding_needed
      | Some v \<Rightarrow>
          (case set_field parse user field v of
             Inl msg \<Rightarrow> Inl msg
           | Inr user' \<Rightarrow>
               update_fields parse data old_address rest user'
                 (geocoding_needed \<or> (field = ''address'' \<and> v \<noteq> old_address))))"

text \<open>
  Lines 243 to 258, once \<open>geocoding_needed\<close> holds: an empty or missing address is not
  geocoded, and an exception of the geocoder is printed and dropped.
\<close>

definition regeocode :: "geocoder \<Rightarrow> user \<Rightarrow> user" where
  "regeocode geocode_address u =
     (case address u of
        None \<Rightarrow> u
      | Some a \<Rightarrow>
          if a = [] then u
          else (case geocode_address a of
                  Inl e \<Rightarrow> u
                | Inr None \<Rightarrow> u\<lparr>lat := None, lng := None\<rparr>
                | Inr (Some (la, lo)) \<Rightarrow> u\<lparr>lat := Some la, lng := Some lo\<rparr>))"

text \<open>Writing a row back: the first row with the same primary key is replaced.\<close>

fun replace_user :: "user \<Rightarrow> user list \<Rightarrow> user list" where
  "replace_user u [] = []"
| "replace_user u (v # vs) = (if uid v = uid u then u # vs else v # replace_user u vs)"

text \<open>
  \<open>update_user_profile\<close>, lines 219 to 266. Nothing is written unless the commit succeeds:
  the early return leaves the session uncommitted, and a failed commit is rolled back.
\<close>

definition update_user_profile ::
  "geocoder \<Rightarrow> date_parser \<Rightarrow> committer \<Rightarrow> db \<Rightarrow> int \<Rightarrow> profile_data \<Rightarrow> response \<times> db" where
  "update_user_profile geocode_address parse commit st user_id data =
     (case User_get st user_id of
        None \<Rightarrow> ((404, NotFoundPage), st)
      | Some user \<Rightarrow>
          (case update_fields parse data (address user) allowed_fields user False of
             Inl msg \<Rightarrow> ((400, ErrorBody msg), st)
           | Inr (user', geocoding_needed) \<Rightarrow>
               (let user'' = (if geocoding_needed then regeocode geocode_address user'
                              else user')
                in if commit st user''
                   then ((200, ProfileBody UpdateSucceeded (to_dict user'')),
                         st\<lparr>users := replace_user user'' (users st)\<rparr>)
                   else ((500, ErrorBody InternalUpdateError), st))))"

text \<open>
  The constraints of the table \<open>users\<close> that a changed row can break: \<open>name\<close> and \<open>phone\<close>
  are not nullable and \<open>phone\<close> is unique. \<open>schema_commit\<close> is the commit that fails when
  one of them is broken, and only then.
\<close>

definition schema_commit :: committer where
  "schema_commit st u =
     (name u \<noteq> None \<and> phone u \<noteq> None
      \<and> phone u \<notin> set (map phone (filter (\<lambda>v. uid v \<noteq> uid u) (users st))))"

section \<open>Example data\<close>

text \<open>
  A hospital, a donor at the hospital's own coordinates, a donor at the antipode of the
  hospital, a scoring policy that prefers the nearer donor, and a request with the default
  radius.
\<close>

definition example_hospital :: hospital where
  "example_hospital = \<lparr>hid = 1, hname = ''Cho Ray'', hlat = 10, hlng = 106\<rparr>"

definition example_donor :: user where
  "example_donor = \<lparr>uid = 7, name = Some ''An'', phone = Some ''0900000001'',
     email = ''an@example.org'', password = ''secret'', role = ''donor'',
     address = Some ''201B Nguyen Chi Thanh'', lat = Some 10, lng = Some 106,
     blood_type = Some ''A+'', last_donation = None\<rparr>"

definition far_donor :: user where
  "far_donor = \<lparr>uid = 8, name = Some ''Binh'', phone = Some ''0900000002'',
     email = ''binh@example.org'', password = ''hidden'', role = ''donor'',
     address = Some ''Isla Gorgona'', lat = Some (- 10), lng = Some (- 74),
     blood_type = Some ''A+'', last_donation = None\<rparr>"

definition example_store :: db where
  "example_store = \<lparr>users = [example_donor], hospitals = [example_hospital]\<rparr>"

definition far_store :: db where
  "far_store = \<lparr>users = [far_donor], hospitals = [example_hospital]\<rparr>"

definition example_scorer :: scorer where
  "example_scorer u d = 100 - d"

definition example_request :: alert_data where
  "example_request =
     \<lparr>req_hospital_id = Some 1, req_blood_type = Some ''A+'', req_radius_km = None\<rparr>"



text \<open>
  Both donors in one database, in the two possible orders, and a request whose radius reaches
  the antipode.
\<close>

definition two_store :: db where
  "two_store = \<lparr>users = [far_donor, example_donor], hospitals = [example_hospital]\<rparr>"

definition two_store_swapped :: db where
  "two_store_swapped = \<lparr>users = [example_donor, far_donor], hospitals = [example_hospital]\<rparr>"

definition wide_request :: alert_data where
  "wide_request =
     \<lparr>req_hospital_id = Some 1, req_blood_type = Some ''A+'', req_radius_km = Some 30000\<rparr>"

text \<open>
  Two functions that \<open>ai_filter\<close> could provide and that fail: one raises the \<open>ImportError\<close>
  of an import it makes when called, the other an arithmetic error.
\<close>

definition import_failing_filter :: filter_fn where
  "import_failing_filter h donors radius = Inl (ImportError ''No module named sklearn'')"

definition crashing_filter :: filter_fn where
  "crashing_filter h donors radius = Inl (Exception ''float division by zero'')"

text \<open>
  Collaborators for \<open>update_user_profile\<close>: a geocoder that knows two addresses and fails
  soft on every other, a parser that knows one date, and three request bodies: a move to an
  address the geocoder knows, a move to one it does not know, and an address cleared.
\<close>

definition example_geocoder :: geocoder where
  "example_geocoder a =
     (if a = ''201B Nguyen Chi Thanh'' then Inr (Some (10, 106))
      else if a = ''1 Le Loi'' then Inr (Some (16, 108))
      else Inr None)"

definition example_parse :: date_parser where
  "example_parse s = (if s = ''2024-01-15'' then Some (Date 2024 1 15) else None)"

definition move_data :: profile_data where
  "move_data = [''address'' \<mapsto> Some ''1 Le Loi'', ''name'' \<mapsto> Some ''An Nguyen'']"

definition unknown_address_data :: profile_data where
  "unknown_address_data = [''address'' \<mapsto> Some ''somewhere'']"

definition clear_address_data :: profile_data where
  "clear_address_data = [''address'' \<mapsto> Some []]"

section \<open>Lemmas on the example data\<close>

lemma distanceKm_same: "distanceKm p p = 0"
  by (simp add: distanceKm_def radians_def)

lemma distanceKm_antipode: "distanceKm (a, b) (- a, b - 180) = 6371 * pi"
proof -
  have "(sin (radians (- a - a) / 2))\<^sup>2 + cos (radians a) * cos (radians (- a)) * (sin (radians (b - 180 - b) / 2))\<^sup>2
        = (sin (a * pi / 180))\<^sup>2 + (cos (a * pi / 180))\<^sup>2"
    by (simp add: radians_def power2_eq_square mult.commute)
  also have "\<dots> = 1" by simp
  finally show ?thesis
    by (simp add: distanceKm_def Let_def)
qed

lemma example_suitable: "suitable_users example_store ''A+'' = [example_donor]"
  by (simp add: suitable_users_def example_store_def example_donor_def)

lemma far_suitable: "suitable_users far_store ''A+'' = [far_donor]"
  by (simp add: suitable_users_def far_store_def far_donor_def)

lemma example_hospital_get: "Hospital_get example_store 1 = Some example_hospital"
  by (simp add: Hospital_get_def example_store_def example_hospital_def)

lemma far_hospital_get: "Hospital_get far_store 1 = Some example_hospital"
  by (simp add: Hospital_get_def far_store_def example_hospital_def)

lemma example_distances:
  "distances example_hospital [example_donor] = Some [(example_donor, 0)]"
  by (simp add: location_def example_donor_def example_hospital_def distanceKm_same)

lemma far_distances:
  "distances example_hospital [far_donor] = Some [(far_donor, 6371 * pi)]"
  using distanceKm_antipode [of 10 106]
  by (simp add: location_def far_donor_def example_hospital_def)

lemma example_filter:
  "filter_nearby_users example_scorer example_hospital [example_donor] 10
   = Inr [\<lparr>r_user = example_donor, distance = 0, ai_score = 100\<rparr>]"
  unfolding filter_nearby_users_def example_distances
  by (simp add: distance_filter_def score_all_def rank_def example_scorer_def)

lemma far_filter:
  "filter_nearby_users example_scorer example_hospital [far_donor] 10 = Inr []"
proof -
  have "\<not> 6371 * pi \<le> 10" using pi_ge_two by simp
  then show ?thesis
    unfolding filter_nearby_users_def far_distances
    by (simp add: distance_filter_def score_all_def rank_def)
qed

lemma example_run:
  "create_alert (Inr (filter_nearby_users example_scorer)) example_store example_request =
     \<lparr>response = (200, AlertBody \<lparr>out_hospital = example_hospital,
          out_blood_type_needed = ''A+'', out_radius_km = 10, total_matched = 1,
          top_50_users = [\<lparr>m_user = to_dict example_donor, distance_km = 0, m_ai_score = 100\<rparr>]\<rparr>),
      trace = [HospitalGet 1, UserQuery ''A+'', ImportAiFilter,
               FilterNearbyUsers example_hospital [example_donor] 10],
      store = example_store\<rparr>"
  by (simp add: create_alert_def example_request_def example_hospital_get get_radius_km_def
      example_suitable example_filter result_entry_def)

lemma far_run:
  "create_alert (Inr (filter_nearby_users example_scorer)) far_store example_request =
     \<lparr>response = (200, AlertBody \<lparr>out_hospital = example_hospital,
          out_blood_type_needed = ''A+'', out_radius_km = 10, total_matched = 0,
          top_50_users = []\<rparr>),
      trace = [HospitalGet 1, UserQuery ''A+'', ImportAiFilter,
               FilterNearbyUsers example_hospital [far_donor] 10],
      store = far_store\<rparr>"
  by (simp add: create_alert_def example_request_def far_hospital_get get_radius_km_def
      far_suitable far_filter)

section \<open>Properties of \<open>create_alert\<close>\<close>

text \<open>The one way to a response 200: both fields, a hospital, an import and a call that return.\<close>

lemma create_alert_success:
  "response (create_alert ai_filter st data) = (200, AlertBody p) \<longleftrightarrow>
     (\<exists>hospital_id bt h flt results.
        req_hospital_id data = Some hospital_id \<and> req_blood_type data = Some bt \<and>
        Hospital_get st hospital_id = Some h \<and> ai_filter = Inr flt \<and>
        flt h (suitable_users st bt) (get_radius_km data) = Inr results \<and>
        p = \<lparr>out_hospital = h, out_blood_type_needed = bt, out_radius_km = get_radius_km data,
             total_matched = length results,
             top_50_users = map result_entry (take 50 results)\<rparr>)"
  by (cases "req_hospital_id data"; cases "req_blood_type data"; cases ai_filter)
     (auto simp: create_alert_def Let_def split: option.splits sum.splits exn.splits elim: alert_except.elims)

text \<open>
  Claim C2. For every successful match request (status 200), the list \<open>top_50_users\<close> has at
  most 50 elements, \<open>total_matched\<close> is the length of the list that \<open>filter_nearby_users\<close>
  returned, before the truncation, and \<open>total_matched\<close> is at least the length of
  \<open>top_50_users\<close>. This holds whatever function the module \<open>ai_filter\<close> provides.
\<close>

theorem create_alert_truncation:
  assumes "response (create_alert ai_filter st data) = (200, AlertBody p)"
  shows "length (top_50_users p) \<le> 50 \<and> length (top_50_users p) \<le> total_matched p \<and>
     (\<exists>hospital_id bt h flt results.
        req_hospital_id data = Some hospital_id \<and> req_blood_type data = Some bt \<and>
        Hospital_get st hospital_id = Some h \<and> ai_filter = Inr flt \<and>
        flt h (suitable_users st bt) (get_radius_km data) = Inr results \<and>
        total_matched p = length results \<and>
        top_50_users p = map result_entry (take 50 results))"
proof -
  from assms obtain hospital_id bt h flt results where
    *: "req_hospital_id data = Some hospital_id" "req_blood_type data = Some bt"
       "Hospital_get st hospital_id = Some h" "ai_filter = Inr flt"
       "flt h (suitable_users st bt) (get_radius_km data) = Inr results"
    and p: "p = \<lparr>out_hospital = h, out_blood_type_needed = bt, out_radius_km = get_radius_km data,
             total_matched = length results,
             top_50_users = map result_entry (take 50 results)\<rparr>"
    unfolding create_alert_success by blast
  have "length (top_50_users p) \<le> 50" "length (top_50_users p) \<le> total_matched p"
    by (simp_all add: p)
  moreover have "total_matched p = length results"
       "top_50_users p = map result_entry (take 50 results)"
    by (simp_all add: p)
  ultimately show ?thesis using * by blast
qed

theorem create_alert_truncation_witness:
  "response (create_alert (Inr (filter_nearby_users example_scorer)) example_store example_request)
     = (200, AlertBody \<lparr>out_hospital = example_hospital,
          out_blood_type_needed = ''A+'', out_radius_km = 10, total_matched = 1,
          top_50_users = [\<lparr>m_user = to_dict example_donor, distance_km = 0, m_ai_score = 100\<rparr>]\<rparr>)
   \<and> length [\<lparr>m_user = to_dict example_donor, distance_km = 0, m_ai_score = 100\<rparr>] \<le> 50
   \<and> length [\<lparr>m_user = to_dict example_donor, distance_km = 0, m_ai_score = 100\<rparr>] \<le> (1::nat)"
proof -
  have r: "response (create_alert (Inr (filter_nearby_users example_scorer)) example_store example_request)
     = (200, AlertBody \<lparr>out_hospital = example_hospital,
          out_blood_type_needed = ''A+'', out_radius_km = 10, total_matched = 1,
          top_50_users = [\<lparr>m_user = to_dict example_donor, distance_km = 0, m_ai_score = 100\<rparr>]\<rparr>)"
    by (simp add: example_run)
  show ?thesis using r create_alert_truncation [OF r] by simp
qed

text \<open>
  Claim C5, as amended. A request in which the key \<open>hospital_id\<close> or the key \<open>blood_type\<close> is
  missing gets the validation error (status 400) before any query and before the engine is
  imported or called, and only such a request gets it: the check of line 184 is \<open>k in data\<close>,
  so a field that is present with an empty value passes it.
\<close>

theorem missing_field_validation:
  "(req_hospital_id data = None \<or> req_blood_type data = None \<longrightarrow>
      create_alert ai_filter st data =
        \<lparr>response = (400, ErrorBody MissingAlertFields), trace = [], store = st\<rparr>)
   \<and> ((response (create_alert ai_filter st data) = (400, ErrorBody MissingAlertFields))
        = (req_hospital_id data = None \<or> req_blood_type data = None))"
  by (cases "req_hospital_id data"; cases "req_blood_type data"; cases ai_filter)
     (auto simp: create_alert_def Let_def split: option.splits sum.splits exn.splits
           elim: alert_except.elims)

theorem missing_field_validation_witness:
  "req_blood_type (example_request\<lparr>req_blood_type := None\<rparr>) = None
   \<and> create_alert (Inr (filter_nearby_users example_scorer)) example_store
        (example_request\<lparr>req_blood_type := None\<rparr>) =
        \<lparr>response = (400, ErrorBody MissingAlertFields), trace = [], store = example_store\<rparr>"
  using missing_field_validation [of "example_request\<lparr>req_blood_type := None\<rparr>"
      "Inr (filter_nearby_users example_scorer)" example_store]
  by simp

text \<open>
  The claim as stated fails for an empty field: with \<open>blood_type\<close> the empty string the
  request passes the check, both queries run, the engine is called, and the response is a
  success.
\<close>

theorem empty_blood_type_counterexample:
  "create_alert (Inr (filter_nearby_users example_scorer)) example_store
     \<lparr>req_hospital_id = Some 1, req_blood_type = Some [], req_radius_km = None\<rparr> =
     \<lparr>response = (200, AlertBody \<lparr>out_hospital = example_hospital,
          out_blood_type_needed = [], out_radius_km = 10, total_matched = 0,
          top_50_users = []\<rparr>),
      trace = [HospitalGet 1, UserQuery [], ImportAiFilter,
               FilterNearbyUsers example_hospital [] 10],
      store = example_store\<rparr>"
proof -
  have s: "suitable_users example_store [] = []"
    by (simp add: suitable_users_def example_store_def example_donor_def)
  have f: "filter_nearby_users example_scorer example_hospital [] 10 = Inr []"
    by (simp add: filter_nearby_users_def distance_filter_def score_all_def rank_def)
  show ?thesis
    by (simp add: create_alert_def example_hospital_get get_radius_km_def s f)
qed

text \<open>
  Claim C6, as amended. A request that has both required fields and whose \<open>hospital_id\<close> is
  the key of no row of \<open>hospitals\<close> gets the not-found error (status 404). Whether or not it has
  the field \<open>blood_type\<close>, the only step that can have been taken is the lookup of the hospital,
  so neither the donor query nor the engine runs, and the body is never the one with
  \<open>top_50_users\<close>.
\<close>

theorem hospital_not_found:
  assumes "req_hospital_id data = Some hospital_id"
    and "Hospital_get st hospital_id = None"
  shows "(req_blood_type data \<noteq> None \<longrightarrow>
            create_alert ai_filter st data =
              \<lparr>response = (404, ErrorBody HospitalNotFound),
               trace = [HospitalGet hospital_id], store = st\<rparr>)
         \<and> set (trace (create_alert ai_filter st data)) \<subseteq> {HospitalGet hospital_id}
         \<and> (\<forall>p. snd (response (create_alert ai_filter st data)) \<noteq> AlertBody p)"
  using assms by (cases "req_blood_type data") (simp_all add: create_alert_def)

theorem hospital_not_found_witness:
  "req_hospital_id (example_request\<lparr>req_hospital_id := Some 2\<rparr>) = Some 2
   \<and> req_blood_type (example_request\<lparr>req_hospital_id := Some 2\<rparr>) \<noteq> None
   \<and> Hospital_get example_store 2 = None
   \<and> create_alert (Inr (filter_nearby_users example_scorer)) example_store
        (example_request\<lparr>req_hospital_id := Some 2\<rparr>) =
        \<lparr>response = (404, ErrorBody HospitalNotFound), trace = [HospitalGet 2],
         store = example_store\<rparr>"
proof -
  have a: "req_hospital_id (example_request\<lparr>req_hospital_id := Some 2\<rparr>) = Some 2"
    and b: "req_blood_type (example_request\<lparr>req_hospital_id := Some 2\<rparr>) \<noteq> None"
    by (simp_all add: example_request_def)
  have c: "Hospital_get example_store 2 = None"
    by (simp add: Hospital_get_def example_store_def example_hospital_def)
  show ?thesis
    using a b c hospital_not_found [OF a c, of "Inr (filter_nearby_users example_scorer)"]
    by simp
qed

text \<open>
  The claim as stated fails for a request without \<open>blood_type\<close>: the check of the required fields
  comes first (line 184), so the answer is the validation error (status 400), not the
  not-found error, and the hospital is not even looked up.
\<close>

theorem unresolved_hospital_without_blood_type_counterexample:
  "Hospital_get example_store 2 = None
   \<and> create_alert (Inr (filter_nearby_users example_scorer)) example_store
        \<lparr>req_hospital_id = Some 2, req_blood_type = None, req_radius_km = None\<rparr> =
        \<lparr>response = (400, ErrorBody MissingAlertFields), trace = [], store = example_store\<rparr>"
  by (simp add: create_alert_def Hospital_get_def example_store_def example_hospital_def)

text \<open>What the handler answers when the import or the call raises \<open>e\<close>.\<close>

lemma create_alert_failure:
  assumes "req_hospital_id data = Some hospital_id" and "req_blood_type data = Some bt"
    and "Hospital_get st hospital_id = Some h"
    and "ai_filter = Inl e \<or>
         (\<exists>flt. ai_filter = Inr flt \<and> flt h (suitable_users st bt) (get_radius_km data) = Inl e)"
  shows "response (create_alert ai_filter st data) = alert_except e"
    and "store (create_alert ai_filter st data) = st"
  using assms by (auto simp: create_alert_def Let_def)

text \<open>
  Claim C8, as amended. When the import of \<open>ai_filter\<close> or the call of \<open>filter_nearby_users\<close>
  raises, the handler catches the exception and answers with status 500 and an error body,
  never with matches; the database is as before; the text of the exception is not in the
  response. The body is one of two fixed texts, chosen by the class of the exception: the
  text for an \<open>ImportError\<close> names the file \<open>ai_filter.py\<close>.
\<close>

theorem filter_failure_reported:
  assumes "req_hospital_id data = Some hospital_id" and "req_blood_type data = Some bt"
    and "Hospital_get st hospital_id = Some h"
    and "ai_filter = Inl e \<or>
         (\<exists>flt. ai_filter = Inr flt \<and> flt h (suitable_users st bt) (get_radius_km data) = Inl e)"
  shows "response (create_alert ai_filter st data) =
           (500, ErrorBody (case e of ImportError m \<Rightarrow> AiFilterNotFound
                                     | Exception m \<Rightarrow> InternalFilterError))
         \<and> (\<forall>p. snd (response (create_alert ai_filter st data)) \<noteq> AlertBody p)
         \<and> store (create_alert ai_filter st data) = st"
  using create_alert_failure [OF assms] by (cases e) simp_all

theorem filter_failure_reported_witness:
  "req_hospital_id example_request = Some 1 \<and> req_blood_type example_request = Some ''A+''
   \<and> Hospital_get example_store 1 = Some example_hospital
   \<and> crashing_filter example_hospital (suitable_users example_store ''A+'')
        (get_radius_km example_request) = Inl (Exception ''float division by zero'')
   \<and> response (create_alert (Inr crashing_filter) example_store example_request) =
        (500, ErrorBody InternalFilterError)
   \<and> store (create_alert (Inr crashing_filter) example_store example_request) = example_store"
proof -
  have a: "req_hospital_id example_request = Some 1"
    and b: "req_blood_type example_request = Some ''A+''"
    by (simp_all add: example_request_def)
  have d: "Inr crashing_filter = Inl (Exception ''float division by zero'') \<or>
         (\<exists>flt. Inr crashing_filter = Inr flt \<and>
            flt example_hospital (suitable_users example_store ''A+'')
              (get_radius_km example_request) = Inl (Exception ''float division by zero''))"
    by (simp add: crashing_filter_def)
  show ?thesis
    using a b example_hospital_get filter_failure_reported [OF a b example_hospital_get d]
    by (simp add: crashing_filter_def)
qed

text \<open>
  The claim as stated fails for an \<open>ImportError\<close>: the caller is told that the fault is in the
  file \<open>ai_filter.py\<close>, and can tell this fault from any other.
\<close>

theorem import_error_exposed_counterexample:
  "response (create_alert (Inr import_failing_filter) example_store example_request) =
     (500, ErrorBody AiFilterNotFound)
   \<and> response (create_alert (Inr import_failing_filter) example_store example_request) \<noteq>
     response (create_alert (Inr crashing_filter) example_store example_request)"
  by (simp add: create_alert_def example_request_def example_hospital_get
      import_failing_filter_def crashing_filter_def)

section \<open>Properties of the engine\<close>

lemma suitable_users_eligible:
  "u \<in> set (suitable_users st bt) \<Longrightarrow>
     role u = ''donor'' \<and> lat u \<noteq> None \<and> lng u \<noteq> None \<and> blood_type u = Some bt"
  by (simp add: suitable_users_def)

lemma suitable_users_location:
  "u \<in> set (suitable_users st bt) \<Longrightarrow> \<exists>pt. location u = Some pt"
  by (auto simp: suitable_users_def location_def)

text \<open>The distance of a donor that has a location.\<close>

lemma distances_Some:
  "distances h us = Some ds \<longleftrightarrow>
     (\<forall>u \<in> set us. location u \<noteq> None) \<and>
     ds = map (\<lambda>u. (u, distanceKm (hlat h, hlng h) (the (location u)))) us"
  by (induction us arbitrary: ds) (auto split: option.splits)

lemma distances_None: "distances h us = None \<longleftrightarrow> (\<exists>u \<in> set us. location u = None)"
  by (induction us) (auto split: option.splits)

lemma set_rank: "set (rank rs) = set rs"
  by (simp add: rank_def)

lemma length_rank: "length (rank rs) = length rs"
  by (simp add: rank_def)

text \<open>What the engine returns, in one expression, when every candidate has a location.\<close>

lemma filter_nearby_users_eq:
  assumes "\<forall>u \<in> set us. location u \<noteq> None"
  shows "filter_nearby_users score h us radius =
     Inr (rank (map (\<lambda>u. \<lparr>r_user = u,
                           distance = distanceKm (hlat h, hlng h) (the (location u)),
                           ai_score = score u (distanceKm (hlat h, hlng h) (the (location u)))\<rparr>)
             (filter (\<lambda>u. 0 < radius \<and> distanceKm (hlat h, hlng h) (the (location u)) \<le> radius)
                us)))"
proof -
  have "distances h us =
          Some (map (\<lambda>u. (u, distanceKm (hlat h, hlng h) (the (location u)))) us)"
    using assms distances_Some by blast
  then show ?thesis
    by (simp add: filter_nearby_users_def distance_filter_def score_all_def filter_map o_def
        not_le)
qed

lemma filter_nearby_users_results:
  assumes "filter_nearby_users score h us radius = Inr results" and "r \<in> set results"
  shows "r_user r \<in> set us \<and> 0 < radius \<and> distance r \<le> radius
         \<and> location (r_user r) \<noteq> None
         \<and> distance r = distanceKm (hlat h, hlng h) (the (location (r_user r)))
         \<and> ai_score r = score (r_user r) (distance r)"
proof -
  from assms(1) have "distances h us \<noteq> None"
    by (auto simp: filter_nearby_users_def split: option.splits)
  then have loc: "\<forall>u \<in> set us. location u \<noteq> None"
    by (simp add: distances_None)
  from assms show ?thesis
    unfolding filter_nearby_users_eq [OF loc] using loc
    by (auto simp: set_rank)
qed

text \<open>
  Claim C4. Every donor handed to the engine has the role \<open>donor\<close>, both coordinates and
  exactly the blood type asked for: this is the query of lines 191 to 196, whose result is the
  argument of every call of \<open>filter_nearby_users\<close>. Hence, for an engine that returns only
  donors it was given, every donor in \<open>top_50_users\<close> has these properties too, whatever its
  distance and score.
\<close>

theorem only_eligible_donors:
  assumes "req_blood_type data = Some bt"
  shows "(\<forall>h us r. FilterNearbyUsers h us r \<in> set (trace (create_alert ai_filter st data)) \<longrightarrow>
            (\<forall>u \<in> set us. role u = ''donor'' \<and> lat u \<noteq> None \<and> lng u \<noteq> None
                           \<and> blood_type u = Some bt))
         \<and> (\<forall>flt p. ai_filter = Inr flt
              \<and> (\<forall>h us r rs. flt h us r = Inr rs \<longrightarrow> r_user ` set rs \<subseteq> set us)
              \<and> response (create_alert ai_filter st data) = (200, AlertBody p) \<longrightarrow>
                (\<forall>m \<in> set (top_50_users p). d_role (m_user m) = ''donor''
                    \<and> d_lat (m_user m) \<noteq> None \<and> d_lng (m_user m) \<noteq> None
                    \<and> d_blood_type (m_user m) = Some bt))"
proof (intro conjI allI impI)
  fix h us r
  assume "FilterNearbyUsers h us r \<in> set (trace (create_alert ai_filter st data))"
  then have "us = suitable_users st bt"
    using assms
    by (auto simp: create_alert_def Let_def split: option.splits sum.splits)
  then show "\<forall>u \<in> set us. role u = ''donor'' \<and> lat u \<noteq> None \<and> lng u \<noteq> None
                           \<and> blood_type u = Some bt"
    using suitable_users_eligible by blast
next
  fix flt p
  assume a: "ai_filter = Inr flt
              \<and> (\<forall>h us r rs. flt h us r = Inr rs \<longrightarrow> r_user ` set rs \<subseteq> set us)
              \<and> response (create_alert ai_filter st data) = (200, AlertBody p)"
  then obtain h results where
    res: "flt h (suitable_users st bt) (get_radius_km data) = Inr results"
    and p: "top_50_users p = map result_entry (take 50 results)"
    using assms unfolding create_alert_success by auto
  from a res have sub: "r_user ` set results \<subseteq> set (suitable_users st bt)" by blast
  show "\<forall>m \<in> set (top_50_users p). d_role (m_user m) = ''donor''
                    \<and> d_lat (m_user m) \<noteq> None \<and> d_lng (m_user m) \<noteq> None
                    \<and> d_blood_type (m_user m) = Some bt"
  proof
    fix m assume "m \<in> set (top_50_users p)"
    then obtain r where r: "r \<in> set results" and m: "m = result_entry r"
      unfolding p by (auto dest: in_set_takeD)
    from r sub have "r_user r \<in> set (suitable_users st bt)" by blast
    from suitable_users_eligible [OF this] show "d_role (m_user m) = ''donor''
                    \<and> d_lat (m_user m) \<noteq> None \<and> d_lng (m_user m) \<noteq> None
                    \<and> d_blood_type (m_user m) = Some bt"
      by (simp add: m result_entry_def to_dict_def)
  qed
qed

theorem only_eligible_donors_witness:
  "req_blood_type example_request = Some ''A+''
   \<and> FilterNearbyUsers example_hospital [example_donor] 10
       \<in> set (trace (create_alert (Inr (filter_nearby_users example_scorer))
                        example_store example_request))
   \<and> role example_donor = ''donor'' \<and> lat example_donor \<noteq> None
   \<and> lng example_donor \<noteq> None \<and> blood_type example_donor = Some ''A+''
   \<and> d_role (to_dict example_donor) = ''donor''
   \<and> d_blood_type (to_dict example_donor) = Some ''A+''"
proof -
  let ?run = "create_alert (Inr (filter_nearby_users example_scorer)) example_store
                example_request"
  let ?p = "\<lparr>out_hospital = example_hospital,
          out_blood_type_needed = ''A+'', out_radius_km = 10, total_matched = 1,
          top_50_users = [\<lparr>m_user = to_dict example_donor, distance_km = 0,
                           m_ai_score = 100\<rparr>]\<rparr>"
  have a: "req_blood_type example_request = Some ''A+''"
    by (simp add: example_request_def)
  have t: "FilterNearbyUsers example_hospital [example_donor] 10 \<in> set (trace ?run)"
    by (simp add: example_run)
  have r: "response ?run = (200, AlertBody ?p)"
    by (simp add: example_run)
  have sub: "\<forall>h us r rs. filter_nearby_users example_scorer h us r = Inr rs
               \<longrightarrow> r_user ` set rs \<subseteq> set us"
    using filter_nearby_users_results by blast
  note c = only_eligible_donors [OF a, of "Inr (filter_nearby_users example_scorer)"
      example_store]
  from c t have 1: "\<forall>u \<in> set [example_donor]. role u = ''donor'' \<and> lat u \<noteq> None
      \<and> lng u \<noteq> None \<and> blood_type u = Some ''A+''"
    by blast
  from c sub r have 2: "\<forall>m \<in> set (top_50_users ?p). d_role (m_user m) = ''donor''
                    \<and> d_lat (m_user m) \<noteq> None \<and> d_lng (m_user m) \<noteq> None
                    \<and> d_blood_type (m_user m) = Some ''A+''"
    by blast
  from a t 1 2 show ?thesis by simp
qed

text \<open>A successful run with the engine of the spec, in terms of the candidates.\<close>

lemma create_alert_engine_success:
  assumes "response (create_alert (Inr (filter_nearby_users score)) st data) = (200, AlertBody p)"
  obtains hospital_id bt h results where
    "req_hospital_id data = Some hospital_id" and "req_blood_type data = Some bt"
    and "Hospital_get st hospital_id = Some h"
    and "filter_nearby_users score h (suitable_users st bt) (get_radius_km data) = Inr results"
    and "p = \<lparr>out_hospital = h, out_blood_type_needed = bt,
              out_radius_km = get_radius_km data, total_matched = length results,
              top_50_users = map result_entry (take 50 results)\<rparr>"
  using assms unfolding create_alert_success by auto

lemma suitable_users_all_located: "\<forall>u \<in> set (suitable_users st bt). location u \<noteq> None"
  using suitable_users_location by fastforce






text \<open>
  Claim C7. For every valid match request (both required fields, a hospital that exists) for
  which no eligible donor lies within the radius, the response is a success (status 200) with
  \<open>total_matched = 0\<close> and an empty \<open>top_50_users\<close>.
\<close>

theorem no_match_is_success:
  assumes "req_hospital_id data = Some hospital_id" and "req_blood_type data = Some bt"
    and "Hospital_get st hospital_id = Some h"
    and "\<forall>u \<in> set (suitable_users st bt). \<forall>pt. location u = Some pt \<longrightarrow>
           \<not> distanceKm (hlat h, hlng h) pt \<le> get_radius_km data"
  shows "response (create_alert (Inr (filter_nearby_users score)) st data) =
           (200, AlertBody \<lparr>out_hospital = h, out_blood_type_needed = bt,
              out_radius_km = get_radius_km data, total_matched = 0, top_50_users = []\<rparr>)"
proof -
  have "filter (\<lambda>u. 0 < get_radius_km data
                  \<and> distanceKm (hlat h, hlng h) (the (location u)) \<le> get_radius_km data)
                (suitable_users st bt) = []"
    using assms(4) suitable_users_all_located [of st bt] by (auto simp: filter_empty_conv)
  then have "filter_nearby_users score h (suitable_users st bt) (get_radius_km data) = Inr []"
    using filter_nearby_users_eq [OF suitable_users_all_located]
    by (simp add: rank_def)
  then show ?thesis
    using assms(1-3) by (simp add: create_alert_def Let_def)
qed

theorem no_match_is_success_witness:
  "req_hospital_id example_request = Some 1 \<and> req_blood_type example_request = Some ''A+''
   \<and> Hospital_get far_store 1 = Some example_hospital
   \<and> suitable_users far_store ''A+'' = [far_donor]
   \<and> location far_donor = Some (- 10, - 74)
   \<and> \<not> distanceKm (hlat example_hospital, hlng example_hospital) (- 10, - 74)
         \<le> get_radius_km example_request
   \<and> response (create_alert (Inr (filter_nearby_users example_scorer)) far_store
        example_request) =
      (200, AlertBody \<lparr>out_hospital = example_hospital, out_blood_type_needed = ''A+'',
          out_radius_km = 10, total_matched = 0, top_50_users = []\<rparr>)"
proof -
  have a: "req_hospital_id example_request = Some 1"
    and b: "req_blood_type example_request = Some ''A+''"
    and g: "get_radius_km example_request = 10"
    by (simp_all add: example_request_def get_radius_km_def)
  have l: "location far_donor = Some (- 10, - 74)"
    by (simp add: location_def far_donor_def)
  have "\<not> 6371 * pi \<le> (10::real)" using pi_ge_two by simp
  then have d: "\<not> distanceKm (hlat example_hospital, hlng example_hospital) (- 10, - 74)
         \<le> get_radius_km example_request"
    using distanceKm_antipode [of 10 106] by (simp add: example_hospital_def g)
  have n: "\<forall>u \<in> set (suitable_users far_store ''A+''). \<forall>pt. location u = Some pt \<longrightarrow>
           \<not> distanceKm (hlat example_hospital, hlng example_hospital) pt
               \<le> get_radius_km example_request"
    using l d by (simp add: far_suitable)
  from no_match_is_success [OF a b far_hospital_get n, of example_scorer] a b l d
  show ?thesis by (simp add: far_hospital_get far_suitable g)
qed

section \<open>The order of the matches\<close>

text \<open>The ranked list is sorted by the key: score descending, distance, donor id.\<close>

lemma sorted_rank:
  "sorted_wrt (\<lambda>a b. ai_score b < ai_score a
        \<or> (ai_score a = ai_score b
            \<and> (distance a < distance b
                \<or> (distance a = distance b \<and> uid (r_user a) \<le> uid (r_user b))))) (rank rs)"
proof -
  have "sorted (map rank_key (rank rs))"
    by (simp add: rank_def)
  then have "sorted_wrt (\<lambda>a b. rank_key a \<le> rank_key b) (rank rs)"
    by (simp add: sorted_map)
  then show ?thesis
    by (rule sorted_wrt_mono_rel [rotated]) (auto simp: rank_key_def)
qed

text \<open>Ranking forgets the order of its input when no two entries have the same key.\<close>

lemma rank_mset_cong:
  assumes "mset xs = mset ys" and "inj_on rank_key (set xs)"
  shows "rank xs = rank ys"
proof -
  have m: "mset xs = mset (sort_key rank_key ys)"
    using assms(1) by simp
  have s: "sorted (map rank_key (sort_key rank_key ys))"
    by simp
  show ?thesis
    unfolding rank_def by (rule sort_key_inj_key_eq [OF m assms(2) s])
qed

lemma Hospital_get_cong: "hospitals st' = hospitals st \<Longrightarrow> Hospital_get st' i = Hospital_get st i"
  by (simp add: Hospital_get_def)

lemma mset_suitable_users:
  "mset (users st') = mset (users st) \<Longrightarrow>
     mset (suitable_users st' bt) = mset (suitable_users st bt)"
  by (simp add: suitable_users_def)

lemma filter_nearby_users_perm:
  assumes "mset us' = mset us" and "distinct (map uid us)"
    and "\<forall>u \<in> set us. location u \<noteq> None"
  shows "filter_nearby_users score h us' radius = filter_nearby_users score h us radius"
proof -
  let ?g = "\<lambda>u. \<lparr>r_user = u,
                 distance = distanceKm (hlat h, hlng h) (the (location u)),
                 ai_score = score u (distanceKm (hlat h, hlng h) (the (location u)))\<rparr>"
  let ?P = "\<lambda>u. 0 < radius \<and> distanceKm (hlat h, hlng h) (the (location u)) \<le> radius"
  have set_eq: "set us' = set us"
    using assms(1) by (rule mset_eq_setD)
  then have loc': "\<forall>u \<in> set us'. location u \<noteq> None"
    using assms(3) by simp
  have m: "mset (map ?g (filter ?P us)) = mset (map ?g (filter ?P us'))"
    using assms(1) by simp
  have "inj_on uid (set us)"
    using assms(2) by (simp add: distinct_map)
  then have "inj_on (\<lambda>u. rank_key (?g u)) (set (filter ?P us))"
    by (auto simp: inj_on_def rank_key_def)
  then have "inj_on rank_key (set (map ?g (filter ?P us)))"
    by (auto simp: inj_on_def)
  with m have "rank (map ?g (filter ?P us)) = rank (map ?g (filter ?P us'))"
    by (rule rank_mset_cong)
  then show ?thesis
    by (simp add: filter_nearby_users_eq [OF assms(3)] filter_nearby_users_eq [OF loc'])
qed

text \<open>
  Claim C3. For every successful match request, \<open>top_50_users\<close> is non-increasing in score;
  among elements of equal score it is non-decreasing in distance; among elements of equal score
  and distance it is ascending in donor id. With that last key the order is determined by the
  rows alone: a database with the same rows in another order (the primary keys being distinct)
  gives the same response for the same request.
\<close>

theorem rank_ordering:
  assumes "response (create_alert (Inr (filter_nearby_users score)) st data) = (200, AlertBody p)"
  shows "sorted_wrt (\<lambda>a b. m_ai_score b \<le> m_ai_score a) (top_50_users p)
    \<and> sorted_wrt (\<lambda>a b. m_ai_score a = m_ai_score b \<longrightarrow> distance_km a \<le> distance_km b)
        (top_50_users p)
    \<and> sorted_wrt (\<lambda>a b. m_ai_score a = m_ai_score b \<and> distance_km a = distance_km b
                      \<longrightarrow> d_id (m_user a) \<le> d_id (m_user b)) (top_50_users p)
    \<and> (\<forall>st'. mset (users st') = mset (users st) \<and> hospitals st' = hospitals st
             \<and> distinct (map uid (users st))
         \<longrightarrow> response (create_alert (Inr (filter_nearby_users score)) st' data)
               = (200, AlertBody p))"
proof -
  from assms obtain hospital_id bt h results where
    hid: "req_hospital_id data = Some hospital_id" and bt: "req_blood_type data = Some bt"
    and h: "Hospital_get st hospital_id = Some h"
    and res: "filter_nearby_users score h (suitable_users st bt) (get_radius_km data) = Inr results"
    and p: "p = \<lparr>out_hospital = h, out_blood_type_needed = bt,
              out_radius_km = get_radius_km data, total_matched = length results,
              top_50_users = map result_entry (take 50 results)\<rparr>"
    by (rule create_alert_engine_success)
  have "results = rank (map (\<lambda>u. \<lparr>r_user = u,
                           distance = distanceKm (hlat h, hlng h) (the (location u)),
                           ai_score = score u (distanceKm (hlat h, hlng h) (the (location u)))\<rparr>)
             (filter (\<lambda>u. 0 < get_radius_km data
                  \<and> distanceKm (hlat h, hlng h) (the (location u)) \<le> get_radius_km data)
                (suitable_users st bt)))"
    using res filter_nearby_users_eq [OF suitable_users_all_located] by simp
  then have "sorted_wrt (\<lambda>a b. ai_score b < ai_score a
        \<or> (ai_score a = ai_score b
            \<and> (distance a < distance b
                \<or> (distance a = distance b \<and> uid (r_user a) \<le> uid (r_user b))))) results"
    using sorted_rank by simp
  then have lex: "sorted_wrt (\<lambda>a b. m_ai_score b < m_ai_score a
        \<or> (m_ai_score a = m_ai_score b
            \<and> (distance_km a < distance_km b
                \<or> (distance_km a = distance_km b \<and> d_id (m_user a) \<le> d_id (m_user b)))))
        (top_50_users p)"
    by (simp add: p sorted_wrt_map result_entry_def to_dict_def)
  have 1: "sorted_wrt (\<lambda>a b. m_ai_score b \<le> m_ai_score a) (top_50_users p)"
    by (rule sorted_wrt_mono_rel [OF _ lex]) auto
  have 2: "sorted_wrt (\<lambda>a b. m_ai_score a = m_ai_score b \<longrightarrow> distance_km a \<le> distance_km b)
        (top_50_users p)"
    by (rule sorted_wrt_mono_rel [OF _ lex]) auto
  have 3: "sorted_wrt (\<lambda>a b. m_ai_score a = m_ai_score b \<and> distance_km a = distance_km b
                      \<longrightarrow> d_id (m_user a) \<le> d_id (m_user b)) (top_50_users p)"
    by (rule sorted_wrt_mono_rel [OF _ lex]) auto
  have 4: "response (create_alert (Inr (filter_nearby_users score)) st' data)
               = (200, AlertBody p)"
    if perm: "mset (users st') = mset (users st)" and hosp: "hospitals st' = hospitals st"
      and dist: "distinct (map uid (users st))" for st'
  proof -
    have "distinct (map uid (suitable_users st bt))"
      using dist by (simp add: suitable_users_def distinct_map_filter)
    then have "filter_nearby_users score h (suitable_users st' bt) (get_radius_km data)
        = Inr results"
      using filter_nearby_users_perm [OF mset_suitable_users [OF perm] _
          suitable_users_all_located] res by simp
    then show ?thesis
      unfolding create_alert_success using hid bt h p Hospital_get_cong [OF hosp] by simp
  qed
  from 1 2 3 4 show ?thesis by blast
qed

text \<open>The two donors, listed with the farther one first, come out with the nearer one first.\<close>

lemma two_run:
  "response (create_alert (Inr (filter_nearby_users example_scorer)) two_store wide_request) =
     (200, AlertBody \<lparr>out_hospital = example_hospital,
          out_blood_type_needed = ''A+'', out_radius_km = 30000, total_matched = 2,
          top_50_users = [\<lparr>m_user = to_dict example_donor, distance_km = 0, m_ai_score = 100\<rparr>,
                          \<lparr>m_user = to_dict far_donor, distance_km = 6371 * pi,
                           m_ai_score = 100 - 6371 * pi\<rparr>]\<rparr>)"
proof -
  have s: "suitable_users two_store ''A+'' = [far_donor, example_donor]"
    by (simp add: suitable_users_def two_store_def example_donor_def far_donor_def)
  have g: "Hospital_get two_store 1 = Some example_hospital"
    by (simp add: Hospital_get_def two_store_def example_hospital_def)
  have d: "distances example_hospital [far_donor, example_donor]
             = Some [(far_donor, 6371 * pi), (example_donor, 0)]"
    using far_distances example_distances by (auto split: option.splits)
  have le: "6371 * pi \<le> 30000" using pi_less_4 by simp
  have k: "\<not> rank_key \<lparr>r_user = far_donor, distance = 6371 * pi, ai_score = 100 - 6371 * pi\<rparr>
             \<le> rank_key \<lparr>r_user = example_donor, distance = 0, ai_score = 100\<rparr>"
    by (simp add: rank_key_def not_le)
  have f: "filter_nearby_users example_scorer example_hospital [far_donor, example_donor] 30000
      = Inr [\<lparr>r_user = example_donor, distance = 0, ai_score = 100\<rparr>,
             \<lparr>r_user = far_donor, distance = 6371 * pi, ai_score = 100 - 6371 * pi\<rparr>]"
    unfolding filter_nearby_users_def d
    using le k by (simp add: distance_filter_def score_all_def rank_def example_scorer_def)
  show ?thesis
    by (simp add: create_alert_def wide_request_def g get_radius_km_def s f result_entry_def
        Let_def)
qed

theorem rank_ordering_witness:
  "response (create_alert (Inr (filter_nearby_users example_scorer)) two_store wide_request) =
     (200, AlertBody \<lparr>out_hospital = example_hospital,
          out_blood_type_needed = ''A+'', out_radius_km = 30000, total_matched = 2,
          top_50_users = [\<lparr>m_user = to_dict example_donor, distance_km = 0, m_ai_score = 100\<rparr>,
                          \<lparr>m_user = to_dict far_donor, distance_km = 6371 * pi,
                           m_ai_score = 100 - 6371 * pi\<rparr>]\<rparr>)
   \<and> sorted_wrt (\<lambda>a b. m_ai_score b \<le> m_ai_score a)
        [\<lparr>m_user = to_dict example_donor, distance_km = 0, m_ai_score = 100\<rparr>,
         \<lparr>m_user = to_dict far_donor, distance_km = 6371 * pi, m_ai_score = 100 - 6371 * pi\<rparr>]
   \<and> mset (users two_store_swapped) = mset (users two_store)
   \<and> hospitals two_store_swapped = hospitals two_store
   \<and> distinct (map uid (users two_store))
   \<and> response (create_alert (Inr (filter_nearby_users example_scorer)) two_store_swapped
        wide_request) =
     (200, AlertBody \<lparr>out_hospital = example_hospital,
          out_blood_type_needed = ''A+'', out_radius_km = 30000, total_matched = 2,
          top_50_users = [\<lparr>m_user = to_dict example_donor, distance_km = 0, m_ai_score = 100\<rparr>,
                          \<lparr>m_user = to_dict far_donor, distance_km = 6371 * pi,
                           m_ai_score = 100 - 6371 * pi\<rparr>]\<rparr>)"
proof -
  let ?p = "\<lparr>out_hospital = example_hospital,
          out_blood_type_needed = ''A+'', out_radius_km = 30000, total_matched = 2,
          top_50_users = [\<lparr>m_user = to_dict example_donor, distance_km = 0, m_ai_score = 100\<rparr>,
                          \<lparr>m_user = to_dict far_donor, distance_km = 6371 * pi,
                           m_ai_score = 100 - 6371 * pi\<rparr>]\<rparr>"
  have r: "response (create_alert (Inr (filter_nearby_users example_scorer)) two_store
             wide_request) = (200, AlertBody ?p)"
    by (rule two_run)
  have m: "mset (users two_store_swapped) = mset (users two_store)"
    by (simp add: two_store_def two_store_swapped_def)
  have h: "hospitals two_store_swapped = hospitals two_store"
    by (simp add: two_store_def two_store_swapped_def)
  have d: "distinct (map uid (users two_store))"
    by (simp add: two_store_def example_donor_def far_donor_def)
  note c = rank_ordering [OF r]
  from c have 1: "sorted_wrt (\<lambda>a b. m_ai_score b \<le> m_ai_score a) (top_50_users ?p)"
    by blast
  from c m h d have 2: "response (create_alert (Inr (filter_nearby_users example_scorer))
      two_store_swapped wide_request) = (200, AlertBody ?p)"
    by blast
  from r 1 m h d 2 show ?thesis by simp
qed

section \<open>Properties of \<open>update_user_profile\<close>\<close>

lemma set_field_frame:
  "set_field parse u field v = Inr u' \<Longrightarrow>
     uid u' = uid u \<and> email u' = email u \<and> password u' = password u \<and> role u' = role u
     \<and> lat u' = lat u \<and> lng u' = lng u"
  by (auto simp: set_field_def setattr_user_def split: if_splits option.splits)

lemma set_field_address:
  "set_field parse u field v = Inr u' \<Longrightarrow>
     address u' = (if field = ''address'' then v else address u)"
  by (auto simp: set_field_def setattr_user_def split: if_splits option.splits)

text \<open>The loop leaves the key, the credentials, the role and the coordinates alone.\<close>

lemma update_fields_frame:
  "update_fields parse data old_address fs u g = Inr (u', g') \<Longrightarrow>
     uid u' = uid u \<and> email u' = email u \<and> password u' = password u \<and> role u' = role u
     \<and> lat u' = lat u \<and> lng u' = lng u"
proof (induction fs arbitrary: u g)
  case Nil
  then show ?case by simp
next
  case (Cons f fs)
  show ?case
  proof (cases "data f")
    case None
    with Cons show ?thesis by simp
  next
    case (Some v)
    with Cons.prems obtain u1 where s: "set_field parse u f v = Inr u1"
      and r: "update_fields parse data old_address fs u1
                (g \<or> (f = ''address'' \<and> v \<noteq> old_address)) = Inr (u', g')"
      by (auto split: sum.splits)
    from Cons.IH [OF r] set_field_frame [OF s] show ?thesis by simp
  qed
qed

text \<open>The address after the loop, and the flag \<open>geocoding_needed\<close>.\<close>

lemma update_fields_address:
  "update_fields parse data old_address fs u g = Inr (u', g') \<Longrightarrow>
     address u' = (if ''address'' \<in> set fs
                   then (case data ''address'' of None \<Rightarrow> address u | Some v \<Rightarrow> v)
                   else address u)
     \<and> g' = (g \<or> (''address'' \<in> set fs
                   \<and> (\<exists>v. data ''address'' = Some v \<and> v \<noteq> old_address)))"
proof (induction fs arbitrary: u g)
  case Nil
  then show ?case by simp
next
  case (Cons f fs)
  show ?case
  proof (cases "data f")
    case None
    with Cons.prems have "update_fields parse data old_address fs u g = Inr (u', g')"
      by simp
    from Cons.IH [OF this] None show ?thesis by (auto split: option.splits)
  next
    case (Some v)
    with Cons.prems obtain u1 where s: "set_field parse u f v = Inr u1"
      and r: "update_fields parse data old_address fs u1
                (g \<or> (f = ''address'' \<and> v \<noteq> old_address)) = Inr (u', g')"
      by (auto split: sum.splits)
    from Cons.IH [OF r] set_field_address [OF s] Some show ?thesis
      by (auto split: option.splits)
  qed
qed

lemma regeocode_frame:
  "uid (regeocode geo u) = uid u \<and> email (regeocode geo u) = email u
   \<and> password (regeocode geo u) = password u \<and> role (regeocode geo u) = role u
   \<and> address (regeocode geo u) = address u"
  by (auto simp: regeocode_def split: option.splits sum.splits)

lemma find_uid: "find (\<lambda>u. uid u = i) us = Some u \<Longrightarrow> uid u = i \<and> u \<in> set us"
  by (induction us) (auto split: if_splits)

lemma find_replace_user:
  "find (\<lambda>u. uid u = i) us = Some u \<Longrightarrow> uid u' = i \<Longrightarrow>
     find (\<lambda>u. uid u = i) (replace_user u' us) = Some u'"
  by (induction us) (auto split: if_splits)

lemma replace_user_frame:
  "find (\<lambda>u. uid u = uid u') us = Some w \<Longrightarrow>
     list_all2 (\<lambda>v v'. v' = v \<or> (v' = u' \<and> v = w)) us (replace_user u' us)"
  by (induction us) (auto simp: list_all2_refl split: if_splits)

text \<open>The ways out of \<open>update_user_profile\<close>.\<close>

lemma update_user_profile_cases:
  assumes "update_user_profile geocode_address parse commit st user_id data = (resp, st')"
  obtains (unchanged) "st' = st" and "fst resp \<noteq> 200"
  | (committed) user user1 g where
      "User_get st user_id = Some user"
      "update_fields parse data (address user) allowed_fields user False = Inr (user1, g)"
      "resp = (200, ProfileBody UpdateSucceeded
                 (to_dict (if g then regeocode geocode_address user1 else user1)))"
      "st' = st\<lparr>users := replace_user (if g then regeocode geocode_address user1 else user1)
                 (users st)\<rparr>"
  using assms
  by (auto simp: update_user_profile_def Let_def
           split: option.splits sum.splits prod.splits if_splits)

text \<open>
  Claim C10. A call of \<open>update_user_profile\<close> leaves the table \<open>hospitals\<close> as it was, and the
  table \<open>users\<close> row by row: in every row the id, the email, the password and the role are as
  before (so only \<open>name\<close>, \<open>phone\<close>, \<open>address\<close>, \<open>blood_type\<close>, \<open>last_donation\<close>, \<open>lat\<close> and
  \<open>lng\<close> can differ), and a row that differs at all is the row of the user of the request.
\<close>

theorem update_user_profile_frame:
  assumes "update_user_profile geocode_address parse commit st user_id data = (resp, st')"
  shows "hospitals st' = hospitals st
    \<and> list_all2 (\<lambda>v v'. uid v' = uid v \<and> email v' = email v \<and> password v' = password v
                   \<and> role v' = role v \<and> (v' \<noteq> v \<longrightarrow> User_get st user_id = Some v))
        (users st) (users st')"
  using assms
proof (cases rule: update_user_profile_cases)
  case unchanged
  then show ?thesis by (simp add: list_all2_refl)
next
  case (committed user user1 g)
  let ?u = "if g then regeocode geocode_address user1 else user1"
  from update_fields_frame [OF committed(2)] regeocode_frame [of geocode_address user1]
  have fr: "uid ?u = uid user" "email ?u = email user" "password ?u = password user"
    "role ?u = role user"
    by simp_all
  from committed(1) have "find (\<lambda>u. uid u = uid ?u) (users st) = Some user"
    using find_uid [of user_id "users st" user] by (simp add: User_get_def fr(1))
  from replace_user_frame [OF this]
  have "list_all2 (\<lambda>v v'. v' = v \<or> (v' = ?u \<and> v = user)) (users st) (users st')"
    by (simp add: committed(4))
  then have "list_all2 (\<lambda>v v'. uid v' = uid v \<and> email v' = email v
       \<and> password v' = password v \<and> role v' = role v
       \<and> (v' \<noteq> v \<longrightarrow> User_get st user_id = Some v)) (users st) (users st')"
    by (rule list_all2_mono) (use fr committed(1) in auto)
  then show ?thesis by (simp add: committed(4))
qed

text \<open>The three example updates of the donor with the id 7.\<close>

lemma example_user_get: "User_get example_store 7 = Some example_donor"
  by (simp add: User_get_def example_store_def example_donor_def)

lemma two_user_get: "User_get two_store 7 = Some example_donor"
  by (simp add: User_get_def two_store_def example_donor_def far_donor_def)

lemma move_fields:
  "update_fields example_parse move_data (address example_donor) allowed_fields example_donor
     False =
   Inr (example_donor\<lparr>name := Some ''An Nguyen'', address := Some ''1 Le Loi''\<rparr>, True)"
  by (simp add: allowed_fields_def move_data_def set_field_def setattr_user_def
      example_donor_def)

lemma move_regeocode:
  "regeocode example_geocoder
     (example_donor\<lparr>name := Some ''An Nguyen'', address := Some ''1 Le Loi''\<rparr>) =
   example_donor\<lparr>name := Some ''An Nguyen'', address := Some ''1 Le Loi'',
     lat := Some 16, lng := Some 108\<rparr>"
  by (simp add: regeocode_def example_geocoder_def example_donor_def)

lemma move_run:
  "update_user_profile example_geocoder example_parse schema_commit two_store 7 move_data =
     ((200, ProfileBody UpdateSucceeded
         (to_dict (example_donor\<lparr>name := Some ''An Nguyen'', address := Some ''1 Le Loi'',
            lat := Some 16, lng := Some 108\<rparr>))),
      \<lparr>users = [far_donor, example_donor\<lparr>name := Some ''An Nguyen'',
                  address := Some ''1 Le Loi'', lat := Some 16, lng := Some 108\<rparr>],
       hospitals = [example_hospital]\<rparr>)"
proof -
  have c: "schema_commit two_store (example_donor\<lparr>name := Some ''An Nguyen'',
      address := Some ''1 Le Loi'', lat := Some 16, lng := Some 108\<rparr>)"
    by (simp add: schema_commit_def two_store_def example_donor_def far_donor_def)
  have r: "replace_user (example_donor\<lparr>name := Some ''An Nguyen'',
      address := Some ''1 Le Loi'', lat := Some 16, lng := Some 108\<rparr>) (users two_store)
    = [far_donor, example_donor\<lparr>name := Some ''An Nguyen'',
                  address := Some ''1 Le Loi'', lat := Some 16, lng := Some 108\<rparr>]"
    by (simp add: two_store_def example_donor_def far_donor_def)
  show ?thesis
    unfolding update_user_profile_def two_user_get
    by (simp add: move_fields move_regeocode c r Let_def) (simp add: two_store_def)
qed

theorem update_user_profile_frame_witness:
  "update_user_profile example_geocoder example_parse schema_commit two_store 7 move_data =
     ((200, ProfileBody UpdateSucceeded
         (to_dict (example_donor\<lparr>name := Some ''An Nguyen'', address := Some ''1 Le Loi'',
            lat := Some 16, lng := Some 108\<rparr>))),
      \<lparr>users = [far_donor, example_donor\<lparr>name := Some ''An Nguyen'',
                  address := Some ''1 Le Loi'', lat := Some 16, lng := Some 108\<rparr>],
       hospitals = [example_hospital]\<rparr>)
   \<and> hospitals two_store = [example_hospital]
   \<and> users two_store = [far_donor, example_donor]
   \<and> User_get two_store 7 = Some example_donor
   \<and> email (example_donor\<lparr>name := Some ''An Nguyen'', address := Some ''1 Le Loi'',
            lat := Some 16, lng := Some 108\<rparr>) = email example_donor
   \<and> password (example_donor\<lparr>name := Some ''An Nguyen'', address := Some ''1 Le Loi'',
            lat := Some 16, lng := Some 108\<rparr>) = password example_donor"
  using update_user_profile_frame [OF move_run] move_run two_user_get
  by (simp add: two_store_def)

text \<open>
  What a successful update that changes the address does to the location: the geocoder is asked
  when the new address is a non-empty string, and its answer is stored, the coordinates or
  their absence; otherwise, and when the geocoder raises, the coordinates are not touched.
\<close>

lemma changed_address_location:
  assumes "update_user_profile geocode_address parse commit st user_id data = ((200, b), st')"
    and "User_get st user_id = Some user"
    and "data ''address'' = Some new_address" and "new_address \<noteq> address user"
  shows "\<exists>user'. User_get st' user_id = Some user'
           \<and> b = ProfileBody UpdateSucceeded (to_dict user')
           \<and> address user' = new_address
           \<and> (lat user', lng user') =
               (case new_address of
                  None \<Rightarrow> (lat user, lng user)
                | Some a \<Rightarrow>
                    if a = [] then (lat user, lng user)
                    else (case geocode_address a of
                            Inl e \<Rightarrow> (lat user, lng user)
                          | Inr None \<Rightarrow> (None, None)
                          | Inr (Some (la, lo)) \<Rightarrow> (Some la, Some lo)))"
  using assms(1)
proof (cases rule: update_user_profile_cases)
  case unchanged
  then show ?thesis by simp
next
  case (committed user0 user1 g)
  from committed(1) assms(2) have u0: "user0 = user" by simp
  note fields = committed(2) [unfolded u0]
  from update_fields_address [OF fields] assms(3,4)
  have a1: "address user1 = new_address" and g: "g"
    by (simp_all add: allowed_fields_def)
  from update_fields_frame [OF fields]
  have fr: "uid user1 = uid user" "lat user1 = lat user" "lng user1 = lng user"
    by simp_all
  let ?u = "regeocode geocode_address user1"
  from assms(2) have uid: "uid user = user_id"
    using find_uid [of user_id "users st" user] by (simp add: User_get_def)
  have "uid ?u = user_id"
    using regeocode_frame [of geocode_address user1] fr(1) uid by simp
  with assms(2) have get: "User_get st' user_id = Some ?u"
    by (simp add: committed(4) g User_get_def find_replace_user)
  have b: "b = ProfileBody UpdateSucceeded (to_dict ?u)"
    using committed(3) g by simp
  have addr: "address ?u = new_address"
    using regeocode_frame [of geocode_address user1] a1 by simp
  have loc: "(lat ?u, lng ?u) =
               (case new_address of
                  None \<Rightarrow> (lat user, lng user)
                | Some a \<Rightarrow>
                    if a = [] then (lat user, lng user)
                    else (case geocode_address a of
                            Inl e \<Rightarrow> (lat user, lng user)
                          | Inr None \<Rightarrow> (None, None)
                          | Inr (Some (la, lo)) \<Rightarrow> (Some la, Some lo)))"
    using a1 fr(2,3) by (auto simp: regeocode_def split: option.splits sum.splits)
  from get b addr loc show ?thesis by blast
qed

text \<open>
  An address that the geocoder does not resolve: the branch of lines 253 to 255 clears the
  coordinates.
\<close>

lemma unknown_run:
  "update_user_profile example_geocoder example_parse schema_commit example_store 7
     unknown_address_data =
     ((200, ProfileBody UpdateSucceeded
         (to_dict (example_donor\<lparr>address := Some ''somewhere'', lat := None, lng := None\<rparr>))),
      \<lparr>users = [example_donor\<lparr>address := Some ''somewhere'', lat := None, lng := None\<rparr>],
       hospitals = [example_hospital]\<rparr>)"
proof -
  have f: "update_fields example_parse unknown_address_data (address example_donor)
     allowed_fields example_donor False =
     Inr (example_donor\<lparr>address := Some ''somewhere''\<rparr>, True)"
    by (simp add: allowed_fields_def unknown_address_data_def set_field_def setattr_user_def
        example_donor_def)
  have g: "regeocode example_geocoder (example_donor\<lparr>address := Some ''somewhere''\<rparr>) =
     example_donor\<lparr>address := Some ''somewhere'', lat := None, lng := None\<rparr>"
    by (simp add: regeocode_def example_geocoder_def example_donor_def)
  have c: "schema_commit example_store
     (example_donor\<lparr>address := Some ''somewhere'', lat := None, lng := None\<rparr>)"
    by (simp add: schema_commit_def example_store_def example_donor_def)
  have r: "replace_user (example_donor\<lparr>address := Some ''somewhere'', lat := None, lng := None\<rparr>)
      (users example_store)
    = [example_donor\<lparr>address := Some ''somewhere'', lat := None, lng := None\<rparr>]"
    by (simp add: example_store_def example_donor_def)
  show ?thesis
    unfolding update_user_profile_def example_user_get
    by (simp add: f g c r Let_def) (simp add: example_store_def)
qed

text \<open>
  Claim C9. A profile update that changes the address must re-derive the location from the new
  address, and leave it absent when the new address cannot be resolved. The code breaks this
  when the address is cleared: the new address is the empty string, which the geocoder does not
  resolve, the guard of line 243 skips the geocoding, and the update succeeds with the
  coordinates of the old address still in the row.
\<close>

theorem cleared_address_keeps_coordinates:
  "update_user_profile example_geocoder example_parse schema_commit example_store 7
     clear_address_data =
     ((200, ProfileBody UpdateSucceeded (to_dict (example_donor\<lparr>address := Some []\<rparr>))),
      \<lparr>users = [example_donor\<lparr>address := Some []\<rparr>], hospitals = [example_hospital]\<rparr>)
   \<and> address example_donor = Some ''201B Nguyen Chi Thanh''
   \<and> example_geocoder [] = Inr None
   \<and> lat (example_donor\<lparr>address := Some []\<rparr>) = Some 10
   \<and> lng (example_donor\<lparr>address := Some []\<rparr>) = Some 106"
proof -
  have f: "update_fields example_parse clear_address_data (address example_donor)
     allowed_fields example_donor False = Inr (example_donor\<lparr>address := Some []\<rparr>, True)"
    by (simp add: allowed_fields_def clear_address_data_def set_field_def setattr_user_def
        example_donor_def)
  have g: "regeocode example_geocoder (example_donor\<lparr>address := Some []\<rparr>) =
     example_donor\<lparr>address := Some []\<rparr>"
    by (simp add: regeocode_def)
  have c: "schema_commit example_store (example_donor\<lparr>address := Some []\<rparr>)"
    by (simp add: schema_commit_def example_store_def example_donor_def)
  have r: "replace_user (example_donor\<lparr>address := Some []\<rparr>) (users example_store)
    = [example_donor\<lparr>address := Some []\<rparr>]"
    by (simp add: example_store_def example_donor_def)
  have run: "update_user_profile example_geocoder example_parse schema_commit example_store 7
     clear_address_data =
     ((200, ProfileBody UpdateSucceeded (to_dict (example_donor\<lparr>address := Some []\<rparr>))),
      \<lparr>users = [example_donor\<lparr>address := Some []\<rparr>], hospitals = [example_hospital]\<rparr>)"
    unfolding update_user_profile_def example_user_get
    by (simp add: f g c r Let_def) (simp add: example_store_def)
  show ?thesis
    using run by (simp add: example_donor_def example_geocoder_def)
qed


end
